theory Spec2Isabelle
  imports Main "HOL-Library.Sublist"
begin

section \<open>Python strings\<close>

text \<open>
  A Python \<open>str\<close> is a sequence of code points. The model writes it as a \<open>string\<close>
  (one \<open>char\<close> per code point) and so covers the code points below 256; \<open>bytes\<close>
  values are \<open>string\<close>s as well, one \<open>char\<close> per byte. The character classes
  below are the ones of Python 3 restricted to that range.
\<close>

type_synonym bytes = string

definition whitespace :: "char list" where
  \<comment> \<open>the code points below 256 for which \<open>str.isspace\<close> holds\<close>
  "whitespace = [CHR 0x09, CHR 0x0A, CHR 0x0B, CHR 0x0C, CHR 0x0D,
                 CHR 0x1C, CHR 0x1D, CHR 0x1E, CHR 0x1F, CHR 0x20, CHR 0x85, CHR 0xA0]"

definition is_space :: "char \<Rightarrow> bool" where
  "is_space c = (c \<in> set whitespace)"

definition strip :: "string \<Rightarrow> string" where
  \<comment> \<open>\<open>str.strip()\<close>: leading and trailing whitespace removed\<close>
  "strip s = rev (dropWhile is_space (rev (dropWhile is_space s)))"

definition is_digit :: "char \<Rightarrow> bool" where
  \<comment> \<open>the class \<open>\\d\<close> of \<open>re\<close> on a \<open>str\<close> pattern: decimal digits\<close>
  "is_digit c = (c \<in> set ''0123456789'')"

definition uppers :: "char list" where
  "uppers = ''ABCDEFGHIJKLMNOPQRSTUVWXYZ'' @
     [CHR 0xC0, CHR 0xC1, CHR 0xC2, CHR 0xC3, CHR 0xC4, CHR 0xC5, CHR 0xC6, CHR 0xC7,
      CHR 0xC8, CHR 0xC9, CHR 0xCA, CHR 0xCB, CHR 0xCC, CHR 0xCD, CHR 0xCE, CHR 0xCF,
      CHR 0xD0, CHR 0xD1, CHR 0xD2, CHR 0xD3, CHR 0xD4, CHR 0xD5, CHR 0xD6,
      CHR 0xD8, CHR 0xD9, CHR 0xDA, CHR 0xDB, CHR 0xDC, CHR 0xDD, CHR 0xDE]"

definition lowers :: "char list" where
  "lowers = ''abcdefghijklmnopqrstuvwxyz'' @
     [CHR 0xE0, CHR 0xE1, CHR 0xE2, CHR 0xE3, CHR 0xE4, CHR 0xE5, CHR 0xE6, CHR 0xE7,
      CHR 0xE8, CHR 0xE9, CHR 0xEA, CHR 0xEB, CHR 0xEC, CHR 0xED, CHR 0xEE, CHR 0xEF,
      CHR 0xF0, CHR 0xF1, CHR 0xF2, CHR 0xF3, CHR 0xF4, CHR 0xF5, CHR 0xF6,
      CHR 0xF8, CHR 0xF9, CHR 0xFA, CHR 0xFB, CHR 0xFC, CHR 0xFD, CHR 0xFE]"

definition lower_char :: "char \<Rightarrow> char" where
  "lower_char c = (case map_of (zip uppers lowers) c of Some l \<Rightarrow> l | None \<Rightarrow> c)"

definition lower :: "string \<Rightarrow> string" where
  \<comment> \<open>\<open>str.lower()\<close>\<close>
  "lower s = map lower_char s"

definition startswith :: "string \<Rightarrow> string \<Rightarrow> bool" where
  \<comment> \<open>\<open>s.startswith(p)\<close>\<close>
  "startswith s p = (take (length p) s = p)"

definition endswith :: "string \<Rightarrow> string \<Rightarrow> bool" where
  \<comment> \<open>\<open>s.endswith(p)\<close>\<close>
  "endswith s p = (length p \<le> length s \<and> drop (length s - length p) s = p)"

fun contains :: "string \<Rightarrow> string \<Rightarrow> bool" where
  \<comment> \<open>\<open>sub in s\<close> on strings, written \<open>contains s sub\<close>\<close>
  "contains [] sub = (sub = [])"
| "contains (c # cs) sub = (startswith (c # cs) sub \<or> contains cs sub)"

fun replace_char :: "char \<Rightarrow> char \<Rightarrow> string \<Rightarrow> string" where
  \<comment> \<open>\<open>s.replace(a, b)\<close> for one-character \<open>a\<close> and \<open>b\<close>\<close>
  "replace_char a b [] = []"
| "replace_char a b (c # cs) = (if c = a then b else c) # replace_char a b cs"

section \<open>The regular expression of the Reference Extractor\<close>

text \<open>
  The pattern \<open>10\.\d{4,}[/.].+\<close> is a sequence of items, each one character of a
  class or a greedy repetition \<open>{n,}\<close> of a class. \<open>bt_match\<close> is the backtracking
  matcher of \<open>re\<close> on such sequences: a repetition first takes as many characters as
  the class allows and gives them back one at a time, down to \<open>n\<close>, until the rest of
  the pattern matches. \<open>re_search\<close> tries the start positions from left to right.
\<close>

datatype rx_item = One "char \<Rightarrow> bool" | AtLeast nat "char \<Rightarrow> bool"

fun first_some :: "'a option list \<Rightarrow> 'a option" where
  "first_some [] = None"
| "first_some (None # xs) = first_some xs"
| "first_some (Some x # xs) = Some x"

fun bt_match :: "rx_item list \<Rightarrow> string \<Rightarrow> string option" where
  "bt_match [] s = Some []"
| "bt_match (One P # r) s =
     (case s of [] \<Rightarrow> None
      | c # cs \<Rightarrow> if P c then map_option ((#) c) (bt_match r cs) else None)"
| "bt_match (AtLeast n P # r) s =
     first_some (map (\<lambda>j. map_option ((@) (take j s)) (bt_match r (drop j s)))
                     (rev [n..<Suc (length (takeWhile P s))]))"

fun re_search :: "rx_item list \<Rightarrow> string \<Rightarrow> string option" where
  \<comment> \<open>\<open>re.search\<close>: the match at the leftmost position that has one\<close>
  "re_search r [] = bt_match r []"
| "re_search r (c # cs) =
     (case bt_match r (c # cs) of Some m \<Rightarrow> Some m | None \<Rightarrow> re_search r cs)"

definition Lit :: "char \<Rightarrow> rx_item" where
  "Lit c = One (\<lambda>x. x = c)"

definition DOI_PATTERN :: "rx_item list" where
  \<comment> \<open>\<open>10\.\d{4,}[/.].+\<close>; the dot of \<open>re\<close> is any character but a newline\<close>
  "DOI_PATTERN =
     [Lit (CHR ''1''), Lit (CHR ''0''), Lit (CHR ''.''),
      AtLeast 4 is_digit,
      One (\<lambda>c. c = CHR ''/'' \<or> c = CHR ''.''),
      AtLeast 1 (\<lambda>c. c \<noteq> CHR 0x0A)]"


text \<open>
  What it means for a string to match a pattern, read off the pattern itself: the
  language of the item sequence. \<open>has_match r s\<close> says that \<open>s\<close> contains a substring
  matching \<open>r\<close>.
\<close>

fun rx_lang :: "rx_item list \<Rightarrow> string set" where
  "rx_lang [] = {[]}"
| "rx_lang (One P # r) = {c # w | c w. P c \<and> w \<in> rx_lang r}"
| "rx_lang (AtLeast n P # r) = {u @ w | u w. n \<le> length u \<and> list_all P u \<and> w \<in> rx_lang r}"


text \<open>
  The leading match of \<open>r\<close> in \<open>s\<close>: a matching substring at the leftmost position
  where one starts, and the longest of those that start there.
\<close>

definition leading_match :: "rx_item list \<Rightarrow> string \<Rightarrow> string \<Rightarrow> bool" where
  "leading_match r s m =
     (\<exists>pre post. s = pre @ m @ post \<and> m \<in> rx_lang r \<and>
        (\<forall>pre' m' post'. s = pre' @ m' @ post' \<and> m' \<in> rx_lang r \<longrightarrow>
           length pre < length pre' \<or> (length pre = length pre' \<and> length m' \<le> length m)))"

section \<open>Reference Extractor\<close>

text \<open>
  A spreadsheet cell is a \<open>str\<close>, a missing value (\<open>None\<close> or NaN), or some other
  object (a number, a date), which the model carries by its \<open>str()\<close> rendering. A column
  label is a \<open>str\<close> or something else. A \<open>DataFrame\<close> is its column labels, its number
  of rows and its cells; a \<open>Series\<close> is a list of values with their index labels.
\<close>

datatype cell = Str string | NaN | NonStr string

datatype header = HStr string | HOther

record dataframe =
  columns :: "header list"
  nrows :: nat
  cellAt :: "string \<Rightarrow> nat \<Rightarrow> cell"

type_synonym 'a series = "(nat \<times> 'a) list"

datatype error = AttributeError | KeyError | TypeError

definition column :: "dataframe \<Rightarrow> string \<Rightarrow> cell series" where
  \<comment> \<open>\<open>df[c]\<close>\<close>
  "column df c = map (\<lambda>i. (i, cellAt df c i)) [0..<nrows df]"

definition series_map :: "('a \<Rightarrow> 'b) \<Rightarrow> 'a series \<Rightarrow> 'b series" where
  "series_map f s = map (\<lambda>(i, v). (i, f v)) s"

definition dropna :: "'a option series \<Rightarrow> 'a series" where
  "dropna s = List.map_filter (\<lambda>(i, v). map_option (Pair i) v) s"

definition astype_str :: "cell \<Rightarrow> string" where
  "astype_str c = (case c of Str s \<Rightarrow> s | NaN \<Rightarrow> ''nan'' | NonStr r \<Rightarrow> r)"

fun find_doi_column :: "header list \<Rightarrow> error + string option" where
  \<comment> \<open>\<open>next((col for col in df.columns if 'doi' in col.strip().lower()), None)\<close>;
      \<open>strip\<close> on a label that is not a \<open>str\<close> raises\<close>
  "find_doi_column [] = Inr None"
| "find_doi_column (HOther # cs) = Inl AttributeError"
| "find_doi_column (HStr col # cs) =
     (if contains (lower (strip col)) ''doi'' then Inr (Some col) else find_doi_column cs)"

definition extract_dois :: "dataframe \<Rightarrow> string \<Rightarrow> string series" where
  \<comment> \<open>the Series \<open>dois\<close>: \<open>df[doi_column].astype(str).str.strip().str.extract(...).dropna()\<close>\<close>
  "extract_dois df doi_column =
     dropna (series_map (re_search DOI_PATTERN)
       (series_map strip (series_map astype_str (column df doi_column))))"

definition link_column :: "dataframe \<Rightarrow> cell series" where
  \<comment> \<open>\<open>df.get('Link to PDF', pd.Series([None]*len(df)))\<close>\<close>
  "link_column df =
     (if HStr ''Link to PDF'' \<in> set (columns df) then column df ''Link to PDF''
      else map (\<lambda>i. (i, NaN)) [0..<nrows df])"

definition series_loc :: "'a series \<Rightarrow> nat \<Rightarrow> error + 'a" where
  \<comment> \<open>selection by index label; a label the Series does not have raises\<close>
  "series_loc s i = (case map_of s i of None \<Rightarrow> Inl KeyError | Some v \<Rightarrow> Inr v)"

definition clean_link :: "cell \<Rightarrow> string option" where
  \<comment> \<open>the body of the loop over \<open>link_to_pdf[dois.index]\<close>\<close>
  "clean_link link =
     (case link of
        Str s \<Rightarrow>
          (let l = strip s in
           if l \<noteq> [] \<and> (startswith l ''http://'' \<or> startswith l ''https://'')
           then Some l else None)
      | _ \<Rightarrow> None)"

fun select_links :: "cell series \<Rightarrow> nat list \<Rightarrow> error + string option list" where
  "select_links s [] = Inr []"
| "select_links s (i # idx) =
     (case series_loc s i of
        Inl e \<Rightarrow> Inl e
      | Inr link \<Rightarrow>
          (case select_links s idx of
             Inl e \<Rightarrow> Inl e
           | Inr ls \<Rightarrow> Inr (clean_link link # ls)))"

datatype excel_read = ReadError | Sheet dataframe

definition empty_frame :: dataframe where
  "empty_frame = \<lparr>columns = [], nrows = 0, cellAt = (\<lambda>c i. NaN)\<rparr>"

definition read_references :: "excel_read \<Rightarrow> dataframe \<times> string list \<times> string option list" where
  "read_references file =
     (case file of
        ReadError \<Rightarrow> (empty_frame, [], [])
      | Sheet df \<Rightarrow>
          (case find_doi_column (columns df) of
             Inl e \<Rightarrow> (empty_frame, [], [])
           | Inr None \<Rightarrow> (df, [], [])
           | Inr (Some doi_column) \<Rightarrow>
               (let dois = extract_dois df doi_column in
                case select_links (link_column df) (map fst dois) of
                  Inl e \<Rightarrow> (empty_frame, [], [])
                | Inr pdf_links \<Rightarrow> (df, map snd dois, pdf_links))))"

text \<open>
  The two cells of row \<open>i\<close> the Extractor looks at: the text of the DOI cell after
  \<open>astype(str)\<close> and \<open>strip\<close>, and the cell of the link column (missing when the
  sheet has no such column).
\<close>

definition doi_cell_text :: "dataframe \<Rightarrow> string \<Rightarrow> nat \<Rightarrow> string" where
  "doi_cell_text df doi_column i = strip (astype_str (cellAt df doi_column i))"

definition link_cell :: "dataframe \<Rightarrow> nat \<Rightarrow> cell" where
  "link_cell df i =
     (if HStr ''Link to PDF'' \<in> set (columns df) then cellAt df ''Link to PDF'' i else NaN)"

section \<open>Python values, HTTP and the file system\<close>

text \<open>
  The values a parsed JSON body holds. A JSON number is carried as an integer: the
  program only tests such a value for truth and hands it on.
\<close>

datatype pyval =
  PNone | PBool bool | PInt int | PStr string | PList "pyval list" | PDict "(string \<times> pyval) list"

fun truthy :: "pyval \<Rightarrow> bool" where
  "truthy PNone = False"
| "truthy (PBool b) = b"
| "truthy (PInt n) = (n \<noteq> 0)"
| "truthy (PStr s) = (s \<noteq> [])"
| "truthy (PList xs) = (xs \<noteq> [])"
| "truthy (PDict kvs) = (kvs \<noteq> [])"

definition err_bind :: "error + 'a \<Rightarrow> ('a \<Rightarrow> error + 'b) \<Rightarrow> error + 'b" where
  "err_bind m f = (case m of Inl e \<Rightarrow> Inl e | Inr x \<Rightarrow> f x)"

definition py_get_default :: "pyval \<Rightarrow> string \<Rightarrow> pyval \<Rightarrow> error + pyval" where
  \<comment> \<open>\<open>d.get(k, default)\<close>; only a dict has \<open>get\<close>\<close>
  "py_get_default d k dflt =
     (case d of
        PDict kvs \<Rightarrow> Inr (case map_of kvs k of None \<Rightarrow> dflt | Some v \<Rightarrow> v)
      | _ \<Rightarrow> Inl AttributeError)"

definition py_get :: "pyval \<Rightarrow> string \<Rightarrow> error + pyval" where
  \<comment> \<open>\<open>d.get(k)\<close>\<close>
  "py_get d k = py_get_default d k PNone"

definition py_iter :: "pyval \<Rightarrow> error + pyval list" where
  \<comment> \<open>the elements a \<open>for\<close> over the value visits: a dict gives its keys, a str its characters\<close>
  "py_iter v =
     (case v of
        PList xs \<Rightarrow> Inr xs
      | PDict kvs \<Rightarrow> Inr (map (\<lambda>kv. PStr (fst kv)) kvs)
      | PStr s \<Rightarrow> Inr (map (\<lambda>c. PStr [c]) s)
      | _ \<Rightarrow> Inl TypeError)"

function str_nat :: "nat \<Rightarrow> string" where
  "str_nat n = (if n < 10 then [''0123456789'' ! n] else str_nat (n div 10) @ [''0123456789'' ! (n mod 10)])"
  by pat_completeness auto
termination
  by (relation "measure id") auto

declare str_nat.simps [simp del]

definition str_int :: "int \<Rightarrow> string" where
  \<comment> \<open>\<open>str\<close> of an \<open>int\<close>\<close>
  "str_int i = (if i < 0 then CHR ''-'' # str_nat (nat (- i)) else str_nat (nat i))"

definition percent :: "nat \<Rightarrow> string" where
  "percent n = [CHR ''%'', ''0123456789ABCDEF'' ! (n div 16), ''0123456789ABCDEF'' ! (n mod 16)]"

definition quote_char :: "char \<Rightarrow> string" where
  "quote_char c =
     (if c \<in> set (''ABCDEFGHIJKLMNOPQRSTUVWXYZabcdefghijklmnopqrstuvwxyz0123456789'' @ ''_.-~/'')
      then [c]
      else (let n = (of_char c :: nat) in
            if n < 128 then percent n else percent (192 + n div 64) @ percent (128 + n mod 64)))"

definition quote :: "string \<Rightarrow> string" where
  \<comment> \<open>\<open>urllib.parse.quote\<close>: every other character as the bytes of its UTF-8 encoding\<close>
  "quote s = concat (map quote_char s)"

text \<open>
  A call of \<open>requests.get\<close> is an \<open>http_request\<close>: the URL (whatever value the caller
  passes), the query parameters, the headers, the \<open>stream\<close> flag and the \<open>timeout\<close>
  argument, \<open>None\<close> when the call gives none (\<open>requests\<close> then waits without limit).
  It raises (carrying \<open>str(e)\<close>) or returns a response. \<open>content\<close> is what reading
  \<open>response.content\<close> gives: the body, or an exception. With \<open>stream=True\<close> the call
  returns once the headers are in and the body is fetched when \<open>response.content\<close> is
  first read, so that reading it can raise; all three functions read it, for the debug
  log, before they look at the status. \<open>json_body\<close> is what \<open>response.json()\<close> returns,
  \<open>None\<close> when it raises.
\<close>

datatype body_read = Body bytes | BodyRaises string

record http_request =
  req_url :: pyval
  req_params :: "(string \<times> string) list"
  req_headers :: "(string \<times> string) list"
  req_stream :: bool
  req_timeout :: "nat option"

record http_response =
  status_code :: int
  content_type :: "string option"
  content :: body_read
  json_body :: "pyval option"

datatype http_result = Raises string | Response http_response

text \<open>
  Faults of the file system that the code handles. \<open>OpenFails e\<close>: opening the
  destination for writing raises. \<open>WriteFails k e\<close>: \<open>k\<close> calls of \<open>write\<close> succeed
  and the next one raises. \<open>SigOpenFails\<close>: reopening the file for the signature check
  raises. \<open>SigRemoveFails\<close>: \<open>os.remove\<close> inside the signature check raises (the file
  is still open there). The other calls (\<open>os.path.getsize\<close> and \<open>os.remove\<close> on a file
  that exists, \<open>os.path.exists\<close>) are taken not to raise.
\<close>

datatype write_fault = NoWriteFault | OpenFails string | WriteFails nat string

datatype sig_fault = NoSigFault | SigOpenFails | SigRemoveFails

text \<open>
  The state of a run is the files on disk and, as a trace, the requests sent so far
  (oldest first). The environment is everything the program does not decide: the answer
  to the \<open>k\<close>-th request of the run and the faults of the download that the \<open>k\<close>-th
  request starts.
\<close>

record world =
  files :: "string \<Rightarrow> bytes option"
  requests :: "http_request list"

record environment =
  net :: "nat \<Rightarrow> http_request \<Rightarrow> http_result"
  wfault :: "nat \<Rightarrow> write_fault"
  sfault :: "nat \<Rightarrow> sig_fault"

definition http_get :: "environment \<Rightarrow> http_request \<Rightarrow> world \<Rightarrow> http_result \<times> world" where
  "http_get env req w =
     (net env (length (requests w)) req, w\<lparr>requests := requests w @ [req]\<rparr>)"

definition USER_AGENT :: string where
  "USER_AGENT = ''Mozilla/5.0 (Windows NT 10.0; Win64; x64) AppleWebKit/537.36''"

section \<open>Resolver Chain: the two lookup services\<close>

definition unpaywall_request :: "string \<Rightarrow> http_request" where
  \<comment> \<open>\<open>requests.get(url, params=params, headers=headers, timeout=10)\<close>\<close>
  "unpaywall_request doi =
     \<lparr>req_url = PStr (''https://api.unpaywall.org/v2/'' @ quote doi),
      req_params = [(''email'', ''james.thomas.rouse@gmail.com'')],
      req_headers = [(''User-Agent'', USER_AGENT)],
      req_stream = False,
      req_timeout = Some 10\<rparr>"

definition loc_url :: "pyval \<Rightarrow> error + pyval" where
  \<comment> \<open>\<open>loc.get('url_for_pdf') or loc.get('url')\<close>\<close>
  "loc_url loc =
     err_bind (py_get loc ''url_for_pdf'') (\<lambda>a. if truthy a then Inr a else py_get loc ''url'')"

fun first_location :: "pyval list \<Rightarrow> error + pyval" where
  \<comment> \<open>\<open>next((... for loc in locations if ...), None)\<close>\<close>
  "first_location [] = Inr PNone"
| "first_location (loc # locs) =
     err_bind (loc_url loc) (\<lambda>u. if truthy u then loc_url loc else first_location locs)"

definition unpaywall_pick :: "pyval \<Rightarrow> error + pyval" where
  \<comment> \<open>the value of \<open>pdf_url\<close>: the three alternatives joined by \<open>or\<close>, left to right\<close>
  "unpaywall_pick data =
     err_bind (py_get_default data ''best_oa_location'' (PDict [])) (\<lambda>b1.
     err_bind (py_get b1 ''url_for_pdf'') (\<lambda>a.
       if truthy a then Inr a
       else
         err_bind (py_get_default data ''best_oa_location'' (PDict [])) (\<lambda>b2.
         err_bind (py_get b2 ''url'') (\<lambda>u.
           if truthy u then Inr u
           else
             err_bind (py_get_default data ''oa_locations'' (PList [])) (\<lambda>locs.
             err_bind (py_iter locs) first_location)))))"

definition unpaywall_result :: "pyval \<Rightarrow> error + pyval" where
  \<comment> \<open>what \<open>search_unpaywall\<close> returns on the parsed body of a 200 response\<close>
  "unpaywall_result data =
     err_bind (py_get data ''is_oa'') (\<lambda>oa.
       if truthy oa
       then err_bind (unpaywall_pick data) (\<lambda>pdf_url. Inr (if truthy pdf_url then pdf_url else PNone))
       else Inr PNone)"

definition search_unpaywall :: "environment \<Rightarrow> string \<Rightarrow> world \<Rightarrow> pyval \<times> world" where
  "search_unpaywall env doi w =
     (let (res, w') = http_get env (unpaywall_request doi) w in
      case res of
        Raises e \<Rightarrow> (PNone, w')
      | Response response \<Rightarrow>
          (case content response of
             BodyRaises e \<Rightarrow> (PNone, w')
           | Body b \<Rightarrow>
               if status_code response = 200 then
                 (case json_body response of
                    None \<Rightarrow> (PNone, w')
                  | Some data \<Rightarrow>
                      (case unpaywall_result data of Inl e \<Rightarrow> (PNone, w') | Inr v \<Rightarrow> (v, w')))
               else (PNone, w')))"

definition pubmed_request :: "string \<Rightarrow> http_request" where
  \<comment> \<open>\<open>requests.get(f"{url}{doi}")\<close>: no other argument\<close>
  "pubmed_request doi =
     \<lparr>req_url = PStr (''https://api.ncbi.nlm.nih.gov/lit/ctxp/v1/pmc/'' @ doi),
      req_params = [],
      req_headers = [],
      req_stream = False,
      req_timeout = None\<rparr>"

definition pubmed_result :: "pyval \<Rightarrow> error + pyval" where
  \<comment> \<open>what \<open>search_pubmed\<close> returns on the parsed body of a 200 response; \<open>lower\<close> on a
      value that is not a \<open>str\<close> raises\<close>
  "pubmed_result data =
     err_bind (py_get data ''full_text_url'') (\<lambda>a.
     err_bind (if truthy a then Inr a else py_get data ''pdf_url'') (\<lambda>pdf_url.
       if truthy pdf_url then
         (case pdf_url of
            PStr s \<Rightarrow> Inr (PStr (if \<not> endswith (lower s) ''.pdf'' then s @ ''.pdf'' else s))
          | _ \<Rightarrow> Inl AttributeError)
       else Inr PNone))"

definition search_pubmed :: "environment \<Rightarrow> string \<Rightarrow> world \<Rightarrow> pyval \<times> world" where
  "search_pubmed env doi w =
     (let (res, w') = http_get env (pubmed_request doi) w in
      case res of
        Raises e \<Rightarrow> (PNone, w')
      | Response response \<Rightarrow>
          (case content response of
             BodyRaises e \<Rightarrow> (PNone, w')
           | Body b \<Rightarrow>
               if status_code response = 200 then
                 (case json_body response of
                    None \<Rightarrow> (PNone, w')
                  | Some data \<Rightarrow>
                      (case pubmed_result data of Inl e \<Rightarrow> (PNone, w') | Inr v \<Rightarrow> (v, w')))
               else (PNone, w')))"

section \<open>Fetcher/Validator\<close>

definition download_request :: "pyval \<Rightarrow> http_request" where
  \<comment> \<open>\<open>requests.get(url, stream=True, timeout=30, headers=headers)\<close>\<close>
  "download_request url =
     \<lparr>req_url = url,
      req_params = [],
      req_headers = [(''User-Agent'', USER_AGENT),
                     (''Accept'', ''application/pdf,application/octet-stream,*/*'')],
      req_stream = True,
      req_timeout = Some 30\<rparr>"

definition allowed_types :: "string list" where
  "allowed_types = [''pdf'', ''octet-stream'', ''binary'', ''download'']"

function iter_slices :: "bytes \<Rightarrow> nat \<Rightarrow> bytes list" where
  \<comment> \<open>the chunks \<open>iter_content\<close> yields for a body that was already read\<close>
  "iter_slices bs n =
     (if bs = [] then [] else if n = 0 then [bs] else take n bs # iter_slices (drop n bs) n)"
  by pat_completeness auto
termination
  by (relation "measure (\<lambda>(bs, n). length bs)") auto

declare iter_slices.simps [simp del]

definition write_file ::
  "write_fault \<Rightarrow> string \<Rightarrow> bytes list \<Rightarrow> (string \<Rightarrow> bytes option)
     \<Rightarrow> string option \<times> (string \<Rightarrow> bytes option)" where
  \<comment> \<open>\<open>with open(path, 'wb') as f:\<close> followed by one \<open>f.write\<close> per chunk; the result
      is the exception raised, if any, and the files afterwards\<close>
  "write_file fault path chunks fs =
     (case fault of
        NoWriteFault \<Rightarrow> (None, fs(path \<mapsto> concat chunks))
      | OpenFails e \<Rightarrow> (Some e, fs)
      | WriteFails k e \<Rightarrow>
          if k < length chunks then (Some e, fs(path \<mapsto> concat (take k chunks)))
          else (None, fs(path \<mapsto> concat chunks)))"

definition remove_file :: "string \<Rightarrow> world \<Rightarrow> world" where
  \<comment> \<open>\<open>os.remove(path)\<close>\<close>
  "remove_file path w = w\<lparr>files := (files w)(path := None)\<rparr>"

definition download_error :: "string \<Rightarrow> string \<Rightarrow> world \<Rightarrow> (bool \<times> string) \<times> world" where
  \<comment> \<open>the handler \<open>except Exception as e\<close> of \<open>download_pdf\<close>\<close>
  "download_error e save_path w =
     ((False, ''Download error: '' @ e),
      (if files w save_path \<noteq> None then remove_file save_path w else w))"

definition check_signature :: "sig_fault \<Rightarrow> string \<Rightarrow> bytes \<Rightarrow> world \<Rightarrow> (bool \<times> string) \<times> world" where
  \<comment> \<open>the inner \<open>try\<close> of \<open>download_pdf\<close>; its bare \<open>except\<close> catches whatever is raised\<close>
  "check_signature sf save_path data w =
     (if sf = SigOpenFails then ((True, ''Successfully downloaded (signature check failed)''), w)
      else if startswith (take 4 data) ''%PDF'' then ((True, ''Successfully downloaded''), w)
      else if sf = SigRemoveFails
        then ((True, ''Successfully downloaded (signature check failed)''), w)
      else ((False, ''Not a valid PDF file''), remove_file save_path w))"

definition download_pdf :: "environment \<Rightarrow> pyval \<Rightarrow> string \<Rightarrow> world \<Rightarrow> (bool \<times> string) \<times> world" where
  "download_pdf env url save_path w =
     (let k = length (requests w);
          (res, w1) = http_get env (download_request url) w in
      case res of
        Raises e \<Rightarrow> download_error e save_path w1
      | Response response \<Rightarrow>
          (case content response of
             BodyRaises e \<Rightarrow> download_error e save_path w1
           | Body body \<Rightarrow>
               if status_code response = 200 then
                 (let content_type =
                        lower (case content_type response of None \<Rightarrow> [] | Some c \<Rightarrow> c) in
                  if \<not> list_ex (contains content_type) allowed_types then
                    (if length body > 1000 then
                       (case write_file (wfault env k) save_path [body] (files w1) of
                          (Some e, fs) \<Rightarrow> download_error e save_path (w1\<lparr>files := fs\<rparr>)
                        | (None, fs) \<Rightarrow>
                            ((True, ''Successfully downloaded (unknown content type)''),
                             w1\<lparr>files := fs\<rparr>))
                     else ((False, ''Not a PDF file (content-type: '' @ content_type @ '')''), w1))
                  else
                    (case write_file (wfault env k) save_path (iter_slices body 8192) (files w1) of
                       (Some e, fs) \<Rightarrow> download_error e save_path (w1\<lparr>files := fs\<rparr>)
                     | (None, fs) \<Rightarrow>
                         (let w2 = w1\<lparr>files := fs\<rparr> in
                          case fs save_path of
                            None \<Rightarrow> download_error ''FileNotFoundError'' save_path w2
                          | Some data \<Rightarrow>
                              if length data < 1000
                              then ((False, ''Downloaded file too small''), remove_file save_path w2)
                              else check_signature (sfault env k) save_path data w2)))
               else ((False, ''HTTP error: '' @ str_int (status_code response)), w1)))"

section \<open>Run Orchestrator\<close>

text \<open>
  A row of the report is the dict \<open>result\<close> of the loop body; the report is the list
  \<open>results\<close> in the order the loop appends to it, which is what \<open>results.csv\<close> holds. The
  log, the console output, the creation of the directory \<open>pdfs\<close> and the writing of the
  CSV file (whose failure the code catches and logs) are not part of the model.
\<close>

record report_row =
  DOI :: string
  PDF_Found :: bool
  Source :: "string option"
  Download_Status :: string
  File_Path :: "string option"
  Error_Message :: "string option"

definition test_doi :: string where
  "test_doi = ''10.1038/s41586-020-2649-2''"

definition add_test_doi :: "string list \<times> string option list \<Rightarrow> string list \<times> string option list" where
  \<comment> \<open>\<open>if test_doi not in references:\<close> append it, and \<open>None\<close> to the links\<close>
  "add_test_doi rl =
     (case rl of (references, pdf_links) \<Rightarrow>
        if test_doi \<notin> set references then (references @ [test_doi], pdf_links @ [None])
        else (references, pdf_links))"

type_synonym search_func = "environment \<Rightarrow> string \<Rightarrow> world \<Rightarrow> pyval \<times> world"

definition SOURCES :: "(string \<times> search_func) list" where
  "SOURCES = [(''Unpaywall'', search_unpaywall), (''PubMed'', search_pubmed)]"

fun try_sources ::
  "(string \<times> search_func) list \<Rightarrow> environment \<Rightarrow> string \<Rightarrow> report_row \<Rightarrow> pyval \<Rightarrow> world
     \<Rightarrow> (pyval \<times> report_row) \<times> world" where
  \<comment> \<open>the loop \<open>for source, search_func in [...]\<close> with its \<open>break\<close>\<close>
  "try_sources [] env doi result pdf_url w = ((pdf_url, result), w)"
| "try_sources ((source, search_func) # rest) env doi result pdf_url w =
     (let (pdf_url', w') = search_func env doi w in
      if truthy pdf_url'
      then ((pdf_url', result\<lparr>Source := Some source, PDF_Found := True\<rparr>), w')
      else try_sources rest env doi result pdf_url' w')"

definition use_excel_link :: "string option \<Rightarrow> pyval \<times> report_row \<Rightarrow> pyval \<times> report_row" where
  \<comment> \<open>\<open>if not pdf_url and pdf_link:\<close>\<close>
  "use_excel_link pdf_link ur =
     (case ur of (pdf_url, result) \<Rightarrow>
        (case pdf_link of
           Some l \<Rightarrow>
             if \<not> truthy pdf_url \<and> l \<noteq> []
             then (PStr l, result\<lparr>Source := Some ''Excel Link'', PDF_Found := True\<rparr>)
             else (pdf_url, result)
         | None \<Rightarrow> (pdf_url, result)))"

definition record_download :: "report_row \<Rightarrow> string \<Rightarrow> bool \<times> string \<Rightarrow> report_row" where
  \<comment> \<open>the three assignments after the call of \<open>download_pdf\<close>\<close>
  "record_download result filename sm =
     (case sm of (success, message) \<Rightarrow>
        result\<lparr>Download_Status := (if success then ''Success'' else ''Failed''),
               File_Path := (if success then Some filename else None),
               Error_Message := (if success then None else Some message)\<rparr>)"

definition new_result :: "string \<Rightarrow> report_row" where
  \<comment> \<open>the dict \<open>result\<close> as the loop body first builds it\<close>
  "new_result doi =
     \<lparr>DOI = doi, PDF_Found = False, Source = None, Download_Status = ''Not attempted'',
      File_Path = None, Error_Message = None\<rparr>"

definition process_reference ::
  "environment \<Rightarrow> string \<times> string option \<Rightarrow> world \<Rightarrow> report_row \<times> world" where
  \<comment> \<open>the body of the loop over \<open>zip(references, pdf_links)\<close>\<close>
  "process_reference env ref w =
     (case ref of (doi, pdf_link) \<Rightarrow>
        (let result = new_result doi;
             (ur, w1) = try_sources SOURCES env doi result PNone w;
             (pdf_url, result) = use_excel_link pdf_link ur in
         if truthy pdf_url then
           (let filename = ''pdfs/'' @ replace_char (CHR ''/'') (CHR ''_'') doi @ ''.pdf'';
                (sm, w2) = download_pdf env pdf_url filename w1 in
            (record_download result filename sm, w2))
         else
           (result\<lparr>Download_Status := ''Failed'', Error_Message := Some ''No PDF URL found''\<rparr>,
            w1)))"

fun process_all ::
  "environment \<Rightarrow> (string \<times> string option) list \<Rightarrow> report_row list \<Rightarrow> world
     \<Rightarrow> report_row list \<times> world" where
  "process_all env [] results w = (results, w)"
| "process_all env (ref # refs) results w =
     (let (result, w') = process_reference env ref w in
      process_all env refs (results @ [result]) w')"

definition main :: "environment \<Rightarrow> excel_read \<Rightarrow> world \<Rightarrow> report_row list \<times> world" where
  \<comment> \<open>the rows of \<open>results.csv\<close> and the state after the run\<close>
  "main env file w =
     (case read_references file of (df, references, pdf_links) \<Rightarrow>
        (case add_test_doi (references, pdf_links) of (references, pdf_links) \<Rightarrow>
           process_all env (zip references pdf_links) [] w))"

section \<open>Notions the properties of the Fetcher/Validator are stated with\<close>




section \<open>Inputs the properties are tried on\<close>

definition sheet0 :: dataframe where
  "sheet0 =
     \<lparr>columns = [HStr ''Title'', HStr '' DOI '', HStr ''Link to PDF''],
      nrows = 3,
      cellAt = (\<lambda>c i.
        if c = '' DOI '' then
          (if i = 0 then Str ''n/a''
           else if i = 1 then Str '' 10.1038/s41586-020-2649-2 ''
           else Str ''see 10.1000/xyz'')
        else if c = ''Link to PDF'' then
          (if i = 0 then Str ''http://a/b.pdf''
           else if i = 1 then Str ''ftp://x''
           else Str '' https://host/p.pdf '')
        else NaN)\<rparr>"

definition world0 :: world where
  "world0 = \<lparr>files = (\<lambda>p. None), requests = []\<rparr>"


definition response_404 :: http_response where
  "response_404 = \<lparr>status_code = 404, content_type = Some ''text/html'',
                    content = Body ''Not Found'', json_body = None\<rparr>"



definition pdf_body :: bytes where
  "pdf_body = ''%PDF-1.4'' @ replicate 1500 (CHR '' '')"



definition response_pdf :: http_response where
  "response_pdf = \<lparr>status_code = 200, content_type = Some ''application/pdf'',
                    content = Body pdf_body, json_body = None\<rparr>"

definition env_script :: "http_result list \<Rightarrow> environment" where
  \<comment> \<open>the \<open>k\<close>-th request of the run gets the \<open>k\<close>-th answer, later ones a connection error;
      no fault of the file system\<close>
  "env_script answers =
     \<lparr>net = (\<lambda>k req. if k < length answers then answers ! k else Raises ''ConnectionError''),
      wfault = (\<lambda>k. NoWriteFault), sfault = (\<lambda>k. NoSigFault)\<rparr>"

definition unpaywall_ok :: http_response where
  "unpaywall_ok =
     \<lparr>status_code = 200, content_type = Some ''application/json'', content = Body ''(json)'',
      json_body = Some (PDict [(''is_oa'', PBool True),
        (''best_oa_location'', PDict [(''url_for_pdf'', PStr ''http://x/y.pdf'')])])\<rparr>"





section \<open>Properties of the regular expression\<close>














lemma leading_match_unique:
  assumes "leading_match r s m" "leading_match r s m'"
  shows "m = m'"
proof -
  from assms(1) obtain pre post where 1: "s = pre @ m @ post" "m \<in> rx_lang r"
    and a: "\<And>p x q. s = p @ x @ q \<Longrightarrow> x \<in> rx_lang r \<Longrightarrow>
              length pre < length p \<or> (length pre = length p \<and> length x \<le> length m)"
    unfolding leading_match_def by blast
  from assms(2) obtain pre' post' where 2: "s = pre' @ m' @ post'" "m' \<in> rx_lang r"
    and b: "\<And>p x q. s = p @ x @ q \<Longrightarrow> x \<in> rx_lang r \<Longrightarrow>
              length pre' < length p \<or> (length pre' = length p \<and> length x \<le> length m')"
    unfolding leading_match_def by blast
  from a[OF 2] b[OF 1] have len: "length pre = length pre'" "length m = length m'" by auto
  from 1(1) 2(1) len(1) have "m @ post = m' @ post'" by (metis append_eq_append_conv)
  with len(2) show ?thesis by simp
qed

section \<open>Properties of the Reference Extractor\<close>

lemma map_filter_map: "List.map_filter g (map f xs) = List.map_filter (\<lambda>x. g (f x)) xs"
  by (induction xs) (simp_all split: option.splits)

lemma extract_dois_eq:
  "extract_dois df col =
     List.map_filter (\<lambda>i. map_option (Pair i) (re_search DOI_PATTERN (doi_cell_text df col i)))
       [0..<nrows df]"
  by (simp add: extract_dois_def dropna_def series_map_def column_def map_filter_map
      doi_cell_text_def comp_def)

lemma map_fst_indexed:
  "map fst (List.map_filter (\<lambda>i. map_option (Pair i) (h i)) xs) = filter (\<lambda>i. h i \<noteq> None) xs"
  by (induction xs) (auto split: option.splits)


lemma series_loc_link:
  "i < nrows df \<Longrightarrow> series_loc (link_column df) i = Inr (link_cell df i)"
  by (simp add: series_loc_def link_column_def link_cell_def column_def map_of_map_restrict)

lemma select_links_ok:
  "\<forall>i\<in>set idx. i < nrows df \<Longrightarrow>
     select_links (link_column df) idx = Inr (map (\<lambda>i. clean_link (link_cell df i)) idx)"
  by (induction idx) (simp_all add: series_loc_link)

lemma extract_dois_index_bound: "i \<in> set (map fst (extract_dois df col)) \<Longrightarrow> i < nrows df"
  unfolding extract_dois_eq map_fst_indexed by simp

lemma read_references_Sheet:
  assumes "find_doi_column (columns df) = Inr (Some col)"
  shows "read_references (Sheet df) =
           (df, map snd (extract_dois df col),
            map (\<lambda>i. clean_link (link_cell df i)) (map fst (extract_dois df col)))"
proof -
  have "select_links (link_column df) (map fst (extract_dois df col)) =
          Inr (map (\<lambda>i. clean_link (link_cell df i)) (map fst (extract_dois df col)))"
    by (rule select_links_ok) (blast dest: extract_dois_index_bound)
  with assms show ?thesis by (simp add: read_references_def Let_def)
qed

lemma zip_indexed:
  "zip (map snd (List.map_filter (\<lambda>i. map_option (Pair i) (h i)) xs))
       (map g (map fst (List.map_filter (\<lambda>i. map_option (Pair i) (h i)) xs))) =
   List.map_filter (\<lambda>i. map_option (\<lambda>d. (d, g i)) (h i)) xs"
  by (induction xs) (auto split: option.splits)



lemma startswith_nonempty: "startswith l p \<Longrightarrow> p \<noteq> [] \<Longrightarrow> l \<noteq> []"
  by (auto simp: startswith_def)

lemma clean_link_Str:
  "clean_link (Str s) =
     (if startswith (strip s) ''http://'' \<or> startswith (strip s) ''https://''
      then Some (strip s) else None)"
  by (auto simp: clean_link_def Let_def dest: startswith_nonempty)


text \<open>
  Claim C6. For a sheet with a DOI column, \<open>read_references\<close> returns as many links as
  DOIs, and position by position the DOI and the link come from the same row of the
  sheet: the rows without a match are dropped from both lists together. The link of a
  kept row is the trimmed cell if the cell is a \<open>str\<close> that, trimmed, starts with
  \<open>http://\<close> or \<open>https://\<close>, and \<open>None\<close> otherwise.
\<close>

theorem fallback_links_aligned:
  assumes "find_doi_column (columns df) = Inr (Some col)"
  shows "length (snd (snd (read_references (Sheet df)))) = length (fst (snd (read_references (Sheet df))))
       \<and> zip (fst (snd (read_references (Sheet df)))) (snd (snd (read_references (Sheet df)))) =
           List.map_filter
             (\<lambda>i. map_option (\<lambda>d. (d, clean_link (link_cell df i)))
                     (re_search DOI_PATTERN (doi_cell_text df col i)))
             [0..<nrows df]
       \<and> (\<forall>s. clean_link (Str s) =
             (if startswith (strip s) ''http://'' \<or> startswith (strip s) ''https://''
              then Some (strip s) else None))
       \<and> clean_link NaN = None
       \<and> (\<forall>r. clean_link (NonStr r) = None)"
proof (intro conjI allI)
  show "length (snd (snd (read_references (Sheet df)))) = length (fst (snd (read_references (Sheet df))))"
    by (simp add: read_references_Sheet[OF assms])
  show "zip (fst (snd (read_references (Sheet df)))) (snd (snd (read_references (Sheet df)))) =
           List.map_filter
             (\<lambda>i. map_option (\<lambda>d. (d, clean_link (link_cell df i)))
                     (re_search DOI_PATTERN (doi_cell_text df col i)))
             [0..<nrows df]"
    unfolding read_references_Sheet[OF assms] fst_conv snd_conv extract_dois_eq
    by (rule zip_indexed)
  show "clean_link (Str s) =
             (if startswith (strip s) ''http://'' \<or> startswith (strip s) ''https://''
              then Some (strip s) else None)" for s
    by (rule clean_link_Str)
  show "clean_link NaN = None" by (simp add: clean_link_def)
  show "clean_link (NonStr r) = None" for r by (simp add: clean_link_def)
qed

theorem fallback_links_aligned_witness:
  "find_doi_column (columns sheet0) = Inr (Some '' DOI '')
   \<and> zip (fst (snd (read_references (Sheet sheet0)))) (snd (snd (read_references (Sheet sheet0)))) =
       [(''10.1038/s41586-020-2649-2'', None), (''10.1000/xyz'', Some ''https://host/p.pdf'')]
   \<and> clean_link (Str ''ftp://x'') = None
   \<and> clean_link (Str '' https://host/p.pdf '') = Some ''https://host/p.pdf''"
proof -
  have c: "find_doi_column (columns sheet0) = Inr (Some '' DOI '')"
    by code_simp
  have r: "List.map_filter
             (\<lambda>i. map_option (\<lambda>d. (d, clean_link (link_cell sheet0 i)))
                     (re_search DOI_PATTERN (doi_cell_text sheet0 '' DOI '' i)))
             [0..<nrows sheet0] =
           [(''10.1038/s41586-020-2649-2'', None), (''10.1000/xyz'', Some ''https://host/p.pdf'')]"
    by code_simp
  have s1: "(if startswith (strip ''ftp://x'') ''http://'' \<or> startswith (strip ''ftp://x'') ''https://''
              then Some (strip ''ftp://x'') else None) = None"
    by code_simp
  have s2: "(if startswith (strip '' https://host/p.pdf '') ''http://''
               \<or> startswith (strip '' https://host/p.pdf '') ''https://''
              then Some (strip '' https://host/p.pdf '') else None) = Some ''https://host/p.pdf''"
    by code_simp
  note th = fallback_links_aligned[OF c]
  from th have "zip (fst (snd (read_references (Sheet sheet0)))) (snd (snd (read_references (Sheet sheet0)))) =
           List.map_filter
             (\<lambda>i. map_option (\<lambda>d. (d, clean_link (link_cell sheet0 i)))
                     (re_search DOI_PATTERN (doi_cell_text sheet0 '' DOI '' i)))
             [0..<nrows sheet0]" by blast
  hence 1: "zip (fst (snd (read_references (Sheet sheet0)))) (snd (snd (read_references (Sheet sheet0)))) =
       [(''10.1038/s41586-020-2649-2'', None), (''10.1000/xyz'', Some ''https://host/p.pdf'')]"
    unfolding r .
  from th have a: "\<forall>s. clean_link (Str s) =
             (if startswith (strip s) ''http://'' \<or> startswith (strip s) ''https://''
              then Some (strip s) else None)" by blast
  have 2: "clean_link (Str ''ftp://x'') = None" using a[rule_format, of "''ftp://x''"] unfolding s1 .
  have 3: "clean_link (Str '' https://host/p.pdf '') = Some ''https://host/p.pdf''"
    using a[rule_format, of "'' https://host/p.pdf ''"] unfolding s2 .
  from c 1 2 3 show ?thesis by blast
qed

section \<open>Properties of the Fetcher/Validator\<close>

lemma download_pdf_requests:
  "requests (snd (download_pdf env url p w)) = requests w @ [download_request url]"
  by (simp add: download_pdf_def http_get_def Let_def download_error_def check_signature_def
      remove_file_def split: http_result.splits prod.splits option.splits body_read.splits)






















section \<open>Properties of the Resolver Chain and the Orchestrator\<close>

lemma search_unpaywall_world:
  "snd (search_unpaywall env doi w) = w\<lparr>requests := requests w @ [unpaywall_request doi]\<rparr>"
  by (simp add: search_unpaywall_def http_get_def
      split: http_result.splits option.splits sum.splits body_read.splits)

lemma search_pubmed_world:
  "snd (search_pubmed env doi w) = w\<lparr>requests := requests w @ [pubmed_request doi]\<rparr>"
  by (simp add: search_pubmed_def http_get_def
      split: http_result.splits option.splits sum.splits body_read.splits)

lemma try_sources_first:
  "truthy (fst (search_unpaywall env doi w)) \<Longrightarrow>
   try_sources SOURCES env doi result pdf_url w =
     ((fst (search_unpaywall env doi w), result\<lparr>Source := Some ''Unpaywall'', PDF_Found := True\<rparr>),
      w\<lparr>requests := requests w @ [unpaywall_request doi]\<rparr>)"
  using search_unpaywall_world[of env doi w]
  by (cases "search_unpaywall env doi w") (simp add: SOURCES_def)

lemma try_sources_second:
  "\<not> truthy (fst (search_unpaywall env doi w)) \<Longrightarrow>
   truthy (fst (search_pubmed env doi (snd (search_unpaywall env doi w)))) \<Longrightarrow>
   try_sources SOURCES env doi result pdf_url w =
     ((fst (search_pubmed env doi (snd (search_unpaywall env doi w))),
       result\<lparr>Source := Some ''PubMed'', PDF_Found := True\<rparr>),
      w\<lparr>requests := requests w @ [unpaywall_request doi, pubmed_request doi]\<rparr>)"
  using search_unpaywall_world[of env doi w]
    search_pubmed_world[of env doi "snd (search_unpaywall env doi w)"]
  by (cases "search_unpaywall env doi w";
      cases "search_pubmed env doi (snd (search_unpaywall env doi w))")
     (simp add: SOURCES_def)

lemma try_sources_none:
  "\<not> truthy (fst (search_unpaywall env doi w)) \<Longrightarrow>
   \<not> truthy (fst (search_pubmed env doi (snd (search_unpaywall env doi w)))) \<Longrightarrow>
   try_sources SOURCES env doi result pdf_url w =
     ((fst (search_pubmed env doi (snd (search_unpaywall env doi w))), result),
      w\<lparr>requests := requests w @ [unpaywall_request doi, pubmed_request doi]\<rparr>)"
  using search_unpaywall_world[of env doi w]
    search_pubmed_world[of env doi "snd (search_unpaywall env doi w)"]
  by (cases "search_unpaywall env doi w";
      cases "search_pubmed env doi (snd (search_unpaywall env doi w))")
     (simp add: SOURCES_def)

lemma process_reference_unfold:
  "process_reference env (doi, pdf_link) w =
     (let t = try_sources SOURCES env doi (new_result doi) PNone w;
          ur = use_excel_link pdf_link (fst t) in
      if truthy (fst ur) then
        (let filename = ''pdfs/'' @ replace_char (CHR ''/'') (CHR ''_'') doi @ ''.pdf'';
             d = download_pdf env (fst ur) filename (snd t) in
         (record_download (snd ur) filename (fst d), snd d))
      else ((snd ur)\<lparr>Download_Status := ''Failed'', Error_Message := Some ''No PDF URL found''\<rparr>,
            snd t))"
  by (simp add: process_reference_def Let_def split: prod.splits)

lemma record_download_fields:
  "DOI (record_download result f sm) = DOI result"
  "Source (record_download result f sm) = Source result"
  "PDF_Found (record_download result f sm) = PDF_Found result"
  by (simp_all add: record_download_def split: prod.splits)

lemma clean_link_nonempty: "clean_link c = Some l \<Longrightarrow> l \<noteq> []"
  by (auto simp: clean_link_def Let_def split: cell.splits if_splits)

lemma requests_differ:
  "pubmed_request doi \<noteq> unpaywall_request doi'" "pubmed_request doi \<noteq> download_request u"
  by (simp_all add: pubmed_request_def unpaywall_request_def download_request_def)

text \<open>
  Claim C3. The chain asks Unpaywall first. If Unpaywall yields a URL (a value that
  counts as true), the chain stops there: that URL and the source \<open>Unpaywall\<close> are the
  result, the only requests of the reference are the one to Unpaywall and the download
  of that URL, and no request goes to PubMed. If Unpaywall yields nothing, the request
  to PubMed follows the one to Unpaywall.
\<close>

theorem resolver_priority:
  "(truthy (fst (search_unpaywall env doi w)) \<longrightarrow>
      try_sources SOURCES env doi result PNone w =
        ((fst (search_unpaywall env doi w), result\<lparr>Source := Some ''Unpaywall'', PDF_Found := True\<rparr>),
         w\<lparr>requests := requests w @ [unpaywall_request doi]\<rparr>)
      \<and> Source (fst (process_reference env (doi, pdf_link) w)) = Some ''Unpaywall''
      \<and> requests (snd (process_reference env (doi, pdf_link) w)) =
          requests w @ [unpaywall_request doi, download_request (fst (search_unpaywall env doi w))]
      \<and> pubmed_request doi \<notin>
          set [unpaywall_request doi, download_request (fst (search_unpaywall env doi w))])
   \<and> (\<not> truthy (fst (search_unpaywall env doi w)) \<longrightarrow>
      requests (snd (try_sources SOURCES env doi result PNone w)) =
        requests w @ [unpaywall_request doi, pubmed_request doi])"
proof (intro conjI impI)
  assume t: "truthy (fst (search_unpaywall env doi w))"
  show "try_sources SOURCES env doi result PNone w =
        ((fst (search_unpaywall env doi w), result\<lparr>Source := Some ''Unpaywall'', PDF_Found := True\<rparr>),
         w\<lparr>requests := requests w @ [unpaywall_request doi]\<rparr>)"
    by (rule try_sources_first[OF t])
  have u: "use_excel_link pdf_link (fst (try_sources SOURCES env doi (new_result doi) PNone w)) =
           fst (try_sources SOURCES env doi (new_result doi) PNone w)"
    using t by (simp add: try_sources_first use_excel_link_def split: option.splits)
  show "Source (fst (process_reference env (doi, pdf_link) w)) = Some ''Unpaywall''"
    unfolding process_reference_unfold Let_def u
    using t by (simp add: try_sources_first record_download_fields)
  show "requests (snd (process_reference env (doi, pdf_link) w)) =
          requests w @ [unpaywall_request doi, download_request (fst (search_unpaywall env doi w))]"
    unfolding process_reference_unfold Let_def u
    using t by (simp add: try_sources_first download_pdf_requests)
  show "pubmed_request doi \<notin>
          set [unpaywall_request doi, download_request (fst (search_unpaywall env doi w))]"
    by (simp add: requests_differ)
next
  assume f: "\<not> truthy (fst (search_unpaywall env doi w))"
  show "requests (snd (try_sources SOURCES env doi result PNone w)) =
        requests w @ [unpaywall_request doi, pubmed_request doi]"
    using f
    by (cases "truthy (fst (search_pubmed env doi (snd (search_unpaywall env doi w))))")
       (simp_all add: try_sources_second try_sources_none)
qed

theorem resolver_priority_witness:
  "truthy (fst (search_unpaywall (env_script [Response unpaywall_ok, Response response_pdf])
                  test_doi world0))
   \<and> Source (fst (process_reference (env_script [Response unpaywall_ok, Response response_pdf])
                  (test_doi, None) world0)) = Some ''Unpaywall''
   \<and> requests (snd (process_reference (env_script [Response unpaywall_ok, Response response_pdf])
                  (test_doi, None) world0)) =
       [unpaywall_request test_doi, download_request (PStr ''http://x/y.pdf'')]"
proof -
  let ?env = "env_script [Response unpaywall_ok, Response response_pdf]"
  have a: "fst (search_unpaywall ?env test_doi world0) = PStr ''http://x/y.pdf''"
    by (simp add: search_unpaywall_def http_get_def env_script_def world0_def unpaywall_ok_def
        unpaywall_result_def unpaywall_pick_def err_bind_def py_get_def py_get_default_def)
  hence t: "truthy (fst (search_unpaywall ?env test_doi world0))" by simp
  from resolver_priority[of ?env test_doi world0 "new_result test_doi" None] t
  have "Source (fst (process_reference ?env (test_doi, None) world0)) = Some ''Unpaywall''
      \<and> requests (snd (process_reference ?env (test_doi, None) world0)) =
          requests world0 @ [unpaywall_request test_doi,
                             download_request (fst (search_unpaywall ?env test_doi world0))]"
    by blast
  with t show ?thesis unfolding a by (simp add: world0_def)
qed

text \<open>
  Claim C9. When neither Unpaywall nor PubMed yields a URL and the Extractor kept a
  fallback link for the reference, the Orchestrator marks the PDF as found with the
  source \<open>Excel Link\<close>, which is not the tag of a lookup service, and the download request
  that follows the two lookups goes to that link as it is.
\<close>

theorem excel_link_fallback:
  assumes "\<not> truthy (fst (search_unpaywall env doi w))"
    and "\<not> truthy (fst (search_pubmed env doi (snd (search_unpaywall env doi w))))"
    and "clean_link c = Some l"
  shows "Source (fst (process_reference env (doi, clean_link c) w)) = Some ''Excel Link''
       \<and> PDF_Found (fst (process_reference env (doi, clean_link c) w))
       \<and> requests (snd (process_reference env (doi, clean_link c) w)) =
           requests w @ [unpaywall_request doi, pubmed_request doi, download_request (PStr l)]
       \<and> ''Excel Link'' \<notin> set (map fst SOURCES)"
proof -
  have l: "l \<noteq> []" by (rule clean_link_nonempty[OF assms(3)])
  have t: "try_sources SOURCES env doi (new_result doi) PNone w =
     ((fst (search_pubmed env doi (snd (search_unpaywall env doi w))), new_result doi),
      w\<lparr>requests := requests w @ [unpaywall_request doi, pubmed_request doi]\<rparr>)"
    by (rule try_sources_none[OF assms(1,2)])
  have u: "use_excel_link (Some l) (fst (try_sources SOURCES env doi (new_result doi) PNone w)) =
           (PStr l, (new_result doi)\<lparr>Source := Some ''Excel Link'', PDF_Found := True\<rparr>)"
    using assms(2) l by (simp add: t use_excel_link_def)
  have d: "''Excel Link'' \<notin> set (map fst SOURCES)" by (simp add: SOURCES_def)
  show ?thesis
    unfolding assms(3) process_reference_unfold Let_def u
    using l d by (simp add: t record_download_fields download_pdf_requests)
qed

theorem excel_link_fallback_witness:
  "\<not> truthy (fst (search_unpaywall
        (env_script [Response response_404, Response response_404, Response response_pdf])
        ''10.1000/xyz'' world0))
   \<and> clean_link (Str '' https://host/p.pdf '') = Some ''https://host/p.pdf''
   \<and> Source (fst (process_reference
        (env_script [Response response_404, Response response_404, Response response_pdf])
        (''10.1000/xyz'', clean_link (Str '' https://host/p.pdf '')) world0)) = Some ''Excel Link''
   \<and> requests (snd (process_reference
        (env_script [Response response_404, Response response_404, Response response_pdf])
        (''10.1000/xyz'', clean_link (Str '' https://host/p.pdf '')) world0)) =
       [unpaywall_request ''10.1000/xyz'', pubmed_request ''10.1000/xyz'',
        download_request (PStr ''https://host/p.pdf'')]"
proof -
  let ?env = "env_script [Response response_404, Response response_404, Response response_pdf]"
  have a: "\<not> truthy (fst (search_unpaywall ?env ''10.1000/xyz'' world0))"
    by (simp add: search_unpaywall_def http_get_def env_script_def world0_def response_404_def)
  have b: "\<not> truthy (fst (search_pubmed ?env ''10.1000/xyz''
                 (snd (search_unpaywall ?env ''10.1000/xyz'' world0))))"
    unfolding search_unpaywall_world
    by (simp add: search_pubmed_def http_get_def env_script_def world0_def response_404_def)
  have c: "clean_link (Str '' https://host/p.pdf '') = Some ''https://host/p.pdf''"
    by code_simp
  from excel_link_fallback[OF a b c] a c show ?thesis by (simp add: world0_def)
qed

section \<open>Properties of a whole run\<close>











lemma run_unreadable:
  "main (env_script []) ReadError world0 =
     ([(new_result test_doi)\<lparr>Download_Status := ''Failed'',
                             Error_Message := Some ''No PDF URL found''\<rparr>],
      \<lparr>files = (\<lambda>p. None), requests = [unpaywall_request test_doi, pubmed_request test_doi]\<rparr>)"
  by (simp add: main_def read_references_def add_test_doi_def process_reference_def SOURCES_def
      search_unpaywall_def search_pubmed_def http_get_def env_script_def world0_def
      use_excel_link_def Let_def)


lemma test_doi_not_xyz: "test_doi \<notin> set [''10.1000/xyz'']"
  by (simp add: test_doi_def)






text \<open>
  Claim C8, on the code. The requests to Unpaywall and the download carry a timeout (10
  and 30 seconds); the request of \<open>search_pubmed\<close> carries none. In the run on an
  unreadable spreadsheet with no network, the two requests sent are the one to Unpaywall,
  with its timeout, and the one to PubMed, without.
\<close>

theorem pubmed_request_without_timeout:
  "req_timeout (unpaywall_request doi) = Some 10
   \<and> req_timeout (download_request url) = Some 30
   \<and> req_timeout (pubmed_request doi) = None
   \<and> requests (snd (search_pubmed env doi w)) = requests w @ [pubmed_request doi]
   \<and> map req_timeout (requests (snd (main (env_script []) ReadError world0))) = [Some 10, None]"
  unfolding run_unreadable search_pubmed_world
  by (simp add: unpaywall_request_def download_request_def pubmed_request_def)

end
